theory Spec2Isabelle
  imports Complex_Main "HOL-Library.Sublist" "HOL-Library.Multiset"
begin

section \<open>Symbol conversion of the data download notebook\<close>

text \<open>
  \<^verbatim>\<open>examples/alpha_research/download_data_rq.ipynb\<close>, cell 5, converts the symbols of
  the data provider into the symbols of the trading platform:
  \<^verbatim>\<open>
  for rq_symbol in rq_symbols:
      vt_symbol = rq_symbol.replace("XSHG", "SSE").replace("XSHE", "SZSE")
      vt_symbols.append(vt_symbol)
  \<close>
  Python's \<^verbatim>\<open>str.replace(old, new)\<close> scans the string from the left and replaces every
  non-overlapping occurrence of \<^verbatim>\<open>old\<close>; for an empty \<^verbatim>\<open>old\<close> it puts \<^verbatim>\<open>new\<close>
  before every character and at the end. A Python string is a sequence of code points, so
  the function is written for lists of any element type.
\<close>

function (sequential) replace :: "'a list \<Rightarrow> 'a list \<Rightarrow> 'a list \<Rightarrow> 'a list" where
  "replace [] new s = new @ concat (map (\<lambda>c. c # new) s)"
| "replace old new [] = []"
| "replace old new (c # cs) =
     (if prefix old (c # cs) then new @ replace old new (drop (length old) (c # cs))
      else c # replace old new cs)"
  by pat_completeness auto
termination
  by (relation "measure (\<lambda>(old, new, s). length s)") auto

definition convert_symbol :: "string \<Rightarrow> string" where
  "convert_symbol rq_symbol = replace ''XSHE'' ''SZSE'' (replace ''XSHG'' ''SSE'' rq_symbol)"

text \<open>
  A symbol is a \<open>string\<close>: the provider's symbols, such as \<^verbatim>\<open>000001.XSHE\<close>, are ASCII.
  The loop follows, with the list \<^verbatim>\<open>vt_symbols\<close> it appends to as the accumulator.
\<close>

fun convert_loop :: "string list \<Rightarrow> string list \<Rightarrow> string list" where
  "convert_loop vt_symbols [] = vt_symbols"
| "convert_loop vt_symbols (rq_symbol # rest) =
     convert_loop (vt_symbols @ [convert_symbol rq_symbol]) rest"

definition convert_symbols :: "string list \<Rightarrow> string list" where
  "convert_symbols rq_symbols = convert_loop [] rq_symbols"

text \<open>
  The enclosing loop of the same cell stores each converted list under the formatted date:
  \<^verbatim>\<open>
  index_components = {}
  for dt, rq_symbols in data.items():
      vt_symbols: list = []
      ...
      index_components[dt.strftime("%Y-%m-%d")] = vt_symbols
  \<close>
  The items of \<^verbatim>\<open>data\<close> are a list of pairs in the dictionary's order; the formatting of
  the date is the standard library's and is the parameter \<open>strftime\<close>.
\<close>

fun index_components_loop ::
  "('d \<Rightarrow> string) \<Rightarrow> (string \<rightharpoonup> string list) \<Rightarrow> ('d \<times> string list) list
     \<Rightarrow> (string \<rightharpoonup> string list)" where
  "index_components_loop strftime index_components [] = index_components"
| "index_components_loop strftime index_components ((dt, rq_symbols) # rest) =
     index_components_loop strftime
       (index_components(strftime dt \<mapsto> convert_symbols rq_symbols)) rest"

text \<open>
  The specification's reading of the conversion, for comparison with the code: one pass
  over the symbol in which an occurrence of \<^verbatim>\<open>XSHG\<close> becomes \<^verbatim>\<open>SSE\<close>, an occurrence of
  \<^verbatim>\<open>XSHE\<close> becomes \<^verbatim>\<open>SZSE\<close>, and every other character is kept.
\<close>

function replace_exchanges :: "string \<Rightarrow> string" where
  "replace_exchanges [] = []"
| "replace_exchanges (c # cs) =
     (if prefix ''XSHG'' (c # cs) then ''SSE'' @ replace_exchanges (drop 4 (c # cs))
      else if prefix ''XSHE'' (c # cs) then ''SZSE'' @ replace_exchanges (drop 4 (c # cs))
      else c # replace_exchanges cs)"
  by pat_completeness auto
termination
  by (relation "measure length") auto


section \<open>Brute-force parameter optimization\<close>

text \<open>
  The notebooks \<^verbatim>\<open>examples/spread_backtesting/backtesting.ipynb\<close> and the CTA backtesting
  notebook build an \<^verbatim>\<open>OptimizationSetting\<close> (imported from \<^verbatim>\<open>vnpy.trader.optimize\<close>) with
  \<^verbatim>\<open>add_parameter(name, start, end, step)\<close> and hand it to
  \<^verbatim>\<open>engine.run_bf_optimization(setting)\<close>. The module \<^verbatim>\<open>vnpy.trader.optimize\<close> itself is
  not among the source files, only these calls are. The definitions of this section follow
  the specification (sections 3 and 4.6) instead.
\<close>

text \<open>Modelled from the spec: the ParameterSet of section 3, an ordered mapping of parameter
  name to value; the class is part of the missing \<^verbatim>\<open>vnpy.trader.optimize\<close>.\<close>

type_synonym parameter_set = "(string \<times> real) list"

text \<open>Modelled from the spec: one entry of the parameter schema of section 4.6, (name, min,
  max, step), as \<^verbatim>\<open>OptimizationSetting.add_parameter\<close> (missing) receives it.\<close>

record parameter_schema =
  param_name :: string
  param_min :: real
  param_max :: real
  param_step :: real

text \<open>Modelled from the spec: the grid of one parameter (section 4.6), the values from min
  up to max in steps of step; the missing \<^verbatim>\<open>OptimizationSetting\<close> builds it. A step that is
  not positive gives the empty grid.\<close>

function parameter_grid :: "real \<Rightarrow> real \<Rightarrow> real \<Rightarrow> real list" where
  "parameter_grid v hi st =
     (if 0 < st \<and> v \<le> hi then v # parameter_grid (v + st) hi st else [])"
  by pat_completeness auto
termination
proof (relation "measure (\<lambda>(v, hi, st). nat (\<lfloor>(hi - v) / st\<rfloor> + 1))")
  show "wf (measure (\<lambda>(v, hi, st). nat (\<lfloor>(hi - v) / st\<rfloor> + 1)))" by simp
next
  fix v hi st :: real
  assume a: "0 < st \<and> v \<le> hi"
  then have "(hi - (v + st)) / st = (hi - v) / st - 1"
    by (simp add: field_simps)
  moreover from a have "0 \<le> \<lfloor>(hi - v) / st\<rfloor>" by simp
  ultimately show "((v + st, hi, st), (v, hi, st))
      \<in> measure (\<lambda>(v, hi, st). nat (\<lfloor>(hi - v) / st\<rfloor> + 1))"
    by simp
qed

declare parameter_grid.simps [simp del]

definition grid_of :: "parameter_schema \<Rightarrow> real list" where
  "grid_of p = parameter_grid (param_min p) (param_max p) (param_step p)"

text \<open>Modelled from the spec: the full cartesian product of the parameter grids (section 4.6,
  brute-force search), the first parameter varying slowest; the enumeration is part of the
  missing \<^verbatim>\<open>vnpy.trader.optimize\<close>.\<close>

fun cartesian_product :: "(string \<times> real list) list \<Rightarrow> parameter_set list" where
  "cartesian_product [] = [[]]"
| "cartesian_product ((n, vs) # rest) =
     concat (map (\<lambda>v. map (\<lambda>ps. (n, v) # ps) (cartesian_product rest)) vs)"

definition generate_settings :: "parameter_schema list \<Rightarrow> parameter_set list" where
  "generate_settings schema = cartesian_product (map (\<lambda>p. (param_name p, grid_of p)) schema)"

text \<open>Modelled from the spec: the status of an OptimizationResult (section 3, ok or failed) and
  the failures of a trial (section 7 and the timeout of section 5); the engine that raises
  them is missing.\<close>

datatype trial_status = Ok | Failed

datatype trial_error = DataGapError | StrategyRuntimeError | TrialTimeout

text \<open>Modelled from the spec: the outputs of the Statistics Calculator (section 4.5), of which
  the target metric names one (section 4.6); the calculator is missing.\<close>

record statistics =
  total_return :: real
  annualized_return :: real
  max_drawdown :: real
  max_drawdown_duration :: nat
  sharpe_ratio :: real
  win_rate :: real
  profit_loss_ratio :: real
  turnover :: real

datatype target_metric =
  TotalReturn | AnnualizedReturn | MaxDrawdown | MaxDrawdownDuration
  | SharpeRatio | WinRate | ProfitLossRatio | Turnover

fun metric_value :: "target_metric \<Rightarrow> statistics \<Rightarrow> real" where
  "metric_value TotalReturn s = total_return s"
| "metric_value AnnualizedReturn s = annualized_return s"
| "metric_value MaxDrawdown s = max_drawdown s"
| "metric_value MaxDrawdownDuration s = real (max_drawdown_duration s)"
| "metric_value SharpeRatio s = sharpe_ratio s"
| "metric_value WinRate s = win_rate s"
| "metric_value ProfitLossRatio s = profit_loss_ratio s"
| "metric_value Turnover s = turnover s"

text \<open>Modelled from the spec: the OptimizationResult of section 3, (ParameterSet, target metric
  value, full statistics, status); a failed trial has no metric value and no statistics.\<close>

record optimization_result =
  parameter_set :: parameter_set
  target_metric_value :: "real option"
  full_statistics :: "statistics option"
  status :: trial_status

text \<open>Modelled from the spec: one trial of a batch (section 4.6, trial isolation): the trial
  itself, a run of the missing backtesting engine on one ParameterSet, is the parameter
  \<open>trial\<close>; its failure is caught here and becomes the status failed.\<close>

definition run_trial ::
  "(parameter_set \<Rightarrow> trial_error + statistics) \<Rightarrow> target_metric \<Rightarrow> parameter_set
     \<Rightarrow> optimization_result" where
  "run_trial trial target ps =
     (case trial ps of
        Inl e \<Rightarrow> \<lparr>parameter_set = ps, target_metric_value = None,
                  full_statistics = None, status = Failed\<rparr>
      | Inr s \<Rightarrow> \<lparr>parameter_set = ps, target_metric_value = Some (metric_value target s),
                  full_statistics = Some s, status = Ok\<rparr>)"

text \<open>Modelled from the spec: the ranking of section 4.6, descending by target metric with a
  failed trial as the worst value; results of equal metric keep the order of enumeration.
  The ranking code is part of the missing \<^verbatim>\<open>vnpy.trader.optimize\<close>.\<close>

fun outranks :: "real option \<Rightarrow> real option \<Rightarrow> bool" where
  "outranks (Some a) (Some b) = (b < a)"
| "outranks (Some a) None = True"
| "outranks None b = False"

fun insert_ranked ::
  "optimization_result \<Rightarrow> optimization_result list \<Rightarrow> optimization_result list" where
  "insert_ranked r [] = [r]"
| "insert_ranked r (x # xs) =
     (if outranks (target_metric_value x) (target_metric_value r) then x # insert_ranked r xs
      else r # x # xs)"

definition rank_results :: "optimization_result list \<Rightarrow> optimization_result list" where
  "rank_results rs = foldr insert_ranked rs []"

text \<open>Modelled from the spec: the brute-force search of section 4.6: enumerate the cartesian
  product, run one trial per combination, collect and rank the results. The function
  \<^verbatim>\<open>run_bf_optimization\<close> that the notebooks call is missing.\<close>

definition run_bf_optimization ::
  "(parameter_set \<Rightarrow> trial_error + statistics) \<Rightarrow> target_metric \<Rightarrow> parameter_schema list
     \<Rightarrow> optimization_result list" where
  "run_bf_optimization trial target schema =
     rank_results (map (run_trial trial target) (generate_settings schema))"

text \<open>
  The setting of the CTA backtesting notebook,
  \<^verbatim>\<open>add_parameter("atr_length", 25, 27, 1)\<close> and \<^verbatim>\<open>add_parameter("atr_ma_length", 10, 30, 10)\<close>,
  and a trial for it that fails on one combination.
\<close>

definition cta_schema :: "parameter_schema list" where
  "cta_schema =
     [\<lparr>param_name = ''atr_length'', param_min = 25, param_max = 27, param_step = 1\<rparr>,
      \<lparr>param_name = ''atr_ma_length'', param_min = 10, param_max = 30, param_step = 10\<rparr>]"

definition example_trial :: "parameter_set \<Rightarrow> trial_error + statistics" where
  "example_trial ps =
     (if ps = [(''atr_length'', 26), (''atr_ma_length'', 20)] then Inl StrategyRuntimeError
      else Inr \<lparr>total_return = 0, annualized_return = 0, max_drawdown = 0,
                max_drawdown_duration = 0, sharpe_ratio = sum_list (map snd ps),
                win_rate = 0, profit_loss_ratio = 0, turnover = 0\<rparr>)"


section \<open>Properties of the symbol conversion\<close>

lemma replace_no_match:
  "old \<noteq> [] \<Longrightarrow> \<not> prefix old (c # cs) \<Longrightarrow>
     replace old new (c # cs) = c # replace old new cs"
  by (cases old) auto

lemma replace_match:
  "old \<noteq> [] \<Longrightarrow> replace old new (old @ t) = new @ replace old new t"
  by (cases old) auto

lemma replace_unchanged:
  "old \<noteq> [] \<Longrightarrow> \<not> sublist old s \<Longrightarrow> replace old new s = s"
proof (induction s)
  case Nil
  then show ?case by (cases old) auto
next
  case (Cons c cs)
  from Cons.prems have "\<not> prefix old (c # cs)"
    using prefix_imp_sublist by blast
  moreover from Cons.prems have "\<not> sublist old cs"
    by (meson sublist_Cons_right)
  ultimately show ?case using Cons by (simp add: replace_no_match)
qed

text \<open>
  The first replacement cannot complete an \<^verbatim>\<open>XSHE\<close> that was not in the input: what it
  writes starts with \<^verbatim>\<open>S\<close> followed by \<^verbatim>\<open>S\<close>, and it leaves the head of an unmatched
  string alone.
\<close>

lemma sse_keeps_E: "prefix ''E'' (replace ''XSHG'' ''SSE'' s) = prefix ''E'' s"
  by (cases s) auto

lemma sse_keeps_HE: "prefix ''HE'' (replace ''XSHG'' ''SSE'' s) = prefix ''HE'' s"
  using sse_keeps_E by (cases s) auto

lemma sse_keeps_SHE: "prefix ''SHE'' (replace ''XSHG'' ''SSE'' s) = prefix ''SHE'' s"
  using sse_keeps_HE by (cases s) auto

lemma convert_symbol_eq: "convert_symbol s = replace_exchanges s"
proof (induction s rule: replace_exchanges.induct)
  case 1
  show ?case by (simp add: convert_symbol_def)
next
  case (2 c cs)
  show ?case
  proof (cases "prefix ''XSHG'' (c # cs)")
    case True
    then obtain t where t: "c # cs = ''XSHG'' @ t" by (auto simp: prefix_def)
    with 2(1) True have ih: "convert_symbol t = replace_exchanges t" by simp
    have "replace ''XSHG'' ''SSE'' (''XSHG'' @ t) = ''SSE'' @ replace ''XSHG'' ''SSE'' t"
      by (rule replace_match) simp
    moreover have "replace ''XSHE'' ''SZSE'' (''SSE'' @ u) = ''SSE'' @ replace ''XSHE'' ''SZSE'' u"
      for u by simp
    moreover have "replace_exchanges (''XSHG'' @ t) = ''SSE'' @ replace_exchanges t"
      by simp
    ultimately show ?thesis using ih unfolding t convert_symbol_def by simp
  next
    case noG: False
    show ?thesis
    proof (cases "prefix ''XSHE'' (c # cs)")
      case True
      then obtain t where t: "c # cs = ''XSHE'' @ t" by (auto simp: prefix_def)
      with 2(2) True noG have ih: "convert_symbol t = replace_exchanges t" by simp
      have "replace ''XSHG'' ''SSE'' (''XSHE'' @ t) = ''XSHE'' @ replace ''XSHG'' ''SSE'' t"
        by simp
      moreover have "replace ''XSHE'' ''SZSE'' (''XSHE'' @ u) = ''SZSE'' @ replace ''XSHE'' ''SZSE'' u"
        for u by (rule replace_match) simp
      moreover have "replace_exchanges (''XSHE'' @ t) = ''SZSE'' @ replace_exchanges t"
        by simp
      ultimately show ?thesis using ih unfolding t convert_symbol_def by simp
    next
      case noE: False
      with 2(3) noG have ih: "convert_symbol cs = replace_exchanges cs" by simp
      from noG have r1: "replace ''XSHG'' ''SSE'' (c # cs) = c # replace ''XSHG'' ''SSE'' cs"
        by (simp only: replace_no_match list.distinct not_False_eq_True)
      from noE have "\<not> prefix ''XSHE'' (c # replace ''XSHG'' ''SSE'' cs)"
        using sse_keeps_SHE[of cs] by simp
      then have r2: "replace ''XSHE'' ''SZSE'' (c # replace ''XSHG'' ''SSE'' cs)
                 = c # replace ''XSHE'' ''SZSE'' (replace ''XSHG'' ''SSE'' cs)"
        by (simp only: replace_no_match list.distinct not_False_eq_True)
      have "replace_exchanges (c # cs) = c # replace_exchanges cs"
        using noG noE by (simp only: replace_exchanges.simps if_False)
      with r1 r2 ih show ?thesis unfolding convert_symbol_def by simp
    qed
  qed
qed

lemma convert_loop_eq: "convert_loop acc xs = acc @ map convert_symbol xs"
  by (induction xs arbitrary: acc) auto

lemma convert_symbol_unchanged:
  "\<not> sublist ''XSHG'' s \<Longrightarrow> \<not> sublist ''XSHE'' s \<Longrightarrow> convert_symbol s = s"
  by (simp add: convert_symbol_def replace_unchanged)

text \<open>
  Claim C10. For every list of data-provider symbols, the conversion loop returns a list of
  the same length and order; each element is the input element with every occurrence of
  \<^verbatim>\<open>XSHG\<close> replaced by \<^verbatim>\<open>SSE\<close> and every occurrence of \<^verbatim>\<open>XSHE\<close> replaced by
  \<^verbatim>\<open>SZSE\<close>, and a symbol containing neither is returned unchanged.
\<close>

theorem convert_symbols_correct:
  "length (convert_symbols rq_symbols) = length rq_symbols \<and>
   (\<forall>i < length rq_symbols.
      convert_symbols rq_symbols ! i = replace_exchanges (rq_symbols ! i) \<and>
      (\<not> sublist ''XSHG'' (rq_symbols ! i) \<and> \<not> sublist ''XSHE'' (rq_symbols ! i) \<longrightarrow>
         convert_symbols rq_symbols ! i = rq_symbols ! i))"
proof -
  have eq: "convert_symbols rq_symbols = map convert_symbol rq_symbols"
    by (simp add: convert_symbols_def convert_loop_eq)
  show ?thesis
    unfolding eq using convert_symbol_eq convert_symbol_unchanged by simp
qed

theorem convert_symbols_correct_witness:
  "(1::nat) < length [''600000.XSHG'', ''IF1911.CFFEX'', ''000001.XSHE''] \<and>
   \<not> sublist ''XSHG'' ''IF1911.CFFEX'' \<and> \<not> sublist ''XSHE'' ''IF1911.CFFEX'' \<and>
   length (convert_symbols [''600000.XSHG'', ''IF1911.CFFEX'', ''000001.XSHE'']) = 3 \<and>
   convert_symbols [''600000.XSHG'', ''IF1911.CFFEX'', ''000001.XSHE''] ! 1 = ''IF1911.CFFEX'' \<and>
   convert_symbols [''600000.XSHG'', ''IF1911.CFFEX'', ''000001.XSHE''] ! 0 = ''600000.SSE'' \<and>
   convert_symbols [''600000.XSHG'', ''IF1911.CFFEX'', ''000001.XSHE''] ! 2 = ''000001.SZSE''"
proof -
  have no: "\<not> sublist ''XSHG'' ''IF1911.CFFEX'' \<and> \<not> sublist ''XSHE'' ''IF1911.CFFEX''"
    by (simp add: sublist_Cons_right)
  have r: "replace_exchanges ''600000.XSHG'' = ''600000.SSE''"
          "replace_exchanges ''000001.XSHE'' = ''000001.SZSE''"
    by simp_all
  show ?thesis
    using convert_symbols_correct [of "[''600000.XSHG'', ''IF1911.CFFEX'', ''000001.XSHE'']"] no r
    by (simp add: nth_Cons')
qed

text \<open>
  After the conversion no provider exchange code is left in a symbol: what the conversion
  writes cannot join its surroundings to a new \<^verbatim>\<open>XSHG\<close> or \<^verbatim>\<open>XSHE\<close>.
\<close>

lemma replace_exchanges_head:
  "c \<noteq> CHR ''S'' \<Longrightarrow> prefix [c] (replace_exchanges s) \<Longrightarrow> prefix [c] s"
  by (cases s) (auto split: if_splits)

lemma replace_exchanges_H:
  "prefix [CHR ''H'', c] (replace_exchanges s) \<Longrightarrow> c \<noteq> CHR ''S'' \<Longrightarrow> prefix [CHR ''H'', c] s"
  using replace_exchanges_head[of c] by (cases s) (auto split: if_splits)

lemma replace_exchanges_SH:
  "prefix [CHR ''S'', CHR ''H'', c] (replace_exchanges s) \<Longrightarrow> c \<noteq> CHR ''S''
     \<Longrightarrow> prefix [CHR ''S'', CHR ''H'', c] s"
  using replace_exchanges_H[of c] by (cases s) (auto split: if_splits)

lemma no_provider_code_left:
  "\<not> sublist ''XSHG'' (replace_exchanges s) \<and> \<not> sublist ''XSHE'' (replace_exchanges s)"
proof (induction s rule: replace_exchanges.induct)
  case 1
  show ?case by simp
next
  case (2 c cs)
  show ?case
  proof (cases "prefix ''XSHG'' (c # cs)")
    case True
    then obtain t where t: "c # cs = ''XSHG'' @ t" by (auto simp: prefix_def)
    with 2(1) True have
      "\<not> sublist ''XSHG'' (replace_exchanges t) \<and> \<not> sublist ''XSHE'' (replace_exchanges t)"
      by simp
    moreover have "replace_exchanges (''XSHG'' @ t) = ''SSE'' @ replace_exchanges t" by simp
    ultimately show ?thesis unfolding t by (simp add: sublist_Cons_right)
  next
    case noG: False
    show ?thesis
    proof (cases "prefix ''XSHE'' (c # cs)")
      case True
      then obtain t where t: "c # cs = ''XSHE'' @ t" by (auto simp: prefix_def)
      with 2(2) True noG have
        "\<not> sublist ''XSHG'' (replace_exchanges t) \<and> \<not> sublist ''XSHE'' (replace_exchanges t)"
        by simp
      moreover have "replace_exchanges (''XSHE'' @ t) = ''SZSE'' @ replace_exchanges t" by simp
      ultimately show ?thesis unfolding t by (simp add: sublist_Cons_right)
    next
      case noE: False
      with 2(3) noG have ih:
        "\<not> sublist ''XSHG'' (replace_exchanges cs) \<and> \<not> sublist ''XSHE'' (replace_exchanges cs)"
        by simp
      have eq: "replace_exchanges (c # cs) = c # replace_exchanges cs"
        using noG noE by (simp only: replace_exchanges.simps if_False)
      have "\<not> prefix ''XSHG'' (c # replace_exchanges cs)"
        using noG replace_exchanges_SH[of "CHR ''G''" cs] by auto
      moreover have "\<not> prefix ''XSHE'' (c # replace_exchanges cs)"
        using noE replace_exchanges_SH[of "CHR ''E''" cs] by auto
      ultimately show ?thesis using ih unfolding eq by (simp add: sublist_Cons_right)
    qed
  qed
qed

lemma converted_symbol_has_no_provider_code:
  "\<not> sublist ''XSHG'' (convert_symbol s) \<and> \<not> sublist ''XSHE'' (convert_symbol s)"
  using no_provider_code_left by (simp add: convert_symbol_eq)

text \<open>Every list stored by the enclosing loop is a converted list of the provider's data.\<close>

lemma index_components_loop_lookup:
  "index_components_loop strftime m items k = Some v \<Longrightarrow>
     m k = Some v \<or>
     (\<exists>(dt, rq_symbols) \<in> set items. strftime dt = k \<and> v = convert_symbols rq_symbols)"
proof (induction items arbitrary: m)
  case Nil
  then show ?case by simp
next
  case (Cons a items)
  obtain dt syms where a: "a = (dt, syms)" by (cases a)
  from Cons.prems have
    "index_components_loop strftime (m(strftime dt \<mapsto> convert_symbols syms)) items k = Some v"
    by (simp add: a)
  from Cons.IH[OF this] show ?case
    by (auto simp: a split: if_splits)
qed

lemma index_components_loop_dom:
  "dom (index_components_loop strftime m items) = dom m \<union> strftime ` fst ` set items"
proof (induction items arbitrary: m)
  case Nil
  show ?case by simp
next
  case (Cons a items)
  obtain dt syms where a: "a = (dt, syms)" by (cases a)
  have "dom (index_components_loop strftime m (a # items))
        = dom (m(strftime dt \<mapsto> convert_symbols syms)) \<union> strftime ` fst ` set items"
    by (simp only: a index_components_loop.simps Cons.IH)
  also have "\<dots> = dom m \<union> strftime ` fst ` set (a # items)"
    by (simp add: a)
  finally show ?case .
qed


section \<open>Properties of the brute-force optimization\<close>

text \<open>The ranking is descending: no later result outranks an earlier one.\<close>

lemma outranks_asym: "outranks a b \<Longrightarrow> \<not> outranks b a"
  by (cases a; cases b) auto

lemma outranks_negtrans: "\<not> outranks a b \<Longrightarrow> \<not> outranks b c \<Longrightarrow> \<not> outranks a c"
  by (cases a; cases b; cases c) auto

lemma set_insert_ranked: "set (insert_ranked r xs) = insert r (set xs)"
  by (induction xs) auto

lemma ranked_insert:
  "sorted_wrt (\<lambda>a b. \<not> outranks (target_metric_value b) (target_metric_value a)) xs \<Longrightarrow>
   sorted_wrt (\<lambda>a b. \<not> outranks (target_metric_value b) (target_metric_value a))
     (insert_ranked r xs)"
proof (induction xs)
  case Nil
  then show ?case by simp
next
  case (Cons x xs)
  show ?case
  proof (cases "outranks (target_metric_value x) (target_metric_value r)")
    case True
    with Cons show ?thesis
      by (auto simp: set_insert_ranked dest: outranks_asym)
  next
    case False
    with Cons.prems show ?thesis
      by (auto dest: outranks_negtrans)
  qed
qed

lemma rank_results_ranked:
  "sorted_wrt (\<lambda>a b. \<not> outranks (target_metric_value b) (target_metric_value a))
     (rank_results rs)"
  by (induction rs) (simp_all add: rank_results_def ranked_insert)

lemma length_cartesian_product:
  "length (cartesian_product gs) = prod_list (map (\<lambda>g. length (snd g)) gs)"
proof (induction gs)
  case Nil
  show ?case by simp
next
  case (Cons g gs)
  obtain n vs where g: "g = (n, vs)" by (cases g)
  have "length (concat (map (\<lambda>v. map (\<lambda>ps. (n, v) # ps) (cartesian_product gs)) vs))
        = length vs * length (cartesian_product gs)"
    by (induction vs) simp_all
  with Cons g show ?case by simp
qed

lemma length_generate_settings:
  "length (generate_settings schema) = prod_list (map (\<lambda>p. length (grid_of p)) schema)"
  by (simp add: generate_settings_def length_cartesian_product comp_def)

lemma mset_insert_ranked: "mset (insert_ranked r xs) = add_mset r (mset xs)"
  by (induction xs) auto

lemma mset_rank_results: "mset (rank_results rs) = mset rs"
  by (induction rs) (auto simp: rank_results_def mset_insert_ranked)

lemma parameter_set_run_trial: "parameter_set (run_trial trial target ps) = ps"
  by (simp add: run_trial_def split: sum.splits)

lemma cta_grids:
  "grid_of \<lparr>param_name = ''atr_length'', param_min = 25, param_max = 27, param_step = 1\<rparr>
     = [25, 26, 27]"
  "grid_of \<lparr>param_name = ''atr_ma_length'', param_min = 10, param_max = 30, param_step = 10\<rparr>
     = [10, 20, 30]"
  by (simp_all add: grid_of_def parameter_grid.simps)

text \<open>
  Claim C7. For every parameter schema whose cartesian product of parameter grids has N
  combinations, the brute-force optimization returns exactly N results, one per
  combination, each tagged with the ParameterSet it was run on and carrying the status ok
  or failed. N is the product of the grid sizes; the results are the trials of the
  enumerated combinations, in ranked order.
\<close>

theorem bf_optimization_results:
  "length (run_bf_optimization trial target schema)
     = prod_list (map (\<lambda>p. length (grid_of p)) schema) \<and>
   mset (map parameter_set (run_bf_optimization trial target schema))
     = mset (generate_settings schema) \<and>
   (\<forall>r \<in> set (run_bf_optimization trial target schema).
      r = run_trial trial target (parameter_set r) \<and> (status r = Ok \<or> status r = Failed))"
proof -
  let ?raw = "map (run_trial trial target) (generate_settings schema)"
  have m: "mset (run_bf_optimization trial target schema) = mset ?raw"
    by (simp add: run_bf_optimization_def mset_rank_results)
  have "length (run_bf_optimization trial target schema) = length ?raw"
    using m by (metis size_mset)
  then have len: "length (run_bf_optimization trial target schema)
     = prod_list (map (\<lambda>p. length (grid_of p)) schema)"
    by (simp add: length_generate_settings)
  have "mset (map parameter_set (run_bf_optimization trial target schema))
        = image_mset parameter_set (mset ?raw)"
    using m by (simp only: mset_map)
  also have "\<dots> = mset (map parameter_set ?raw)" by (simp only: mset_map)
  also have "map parameter_set ?raw = generate_settings schema"
    by (simp add: comp_def parameter_set_run_trial)
  finally have tags: "mset (map parameter_set (run_bf_optimization trial target schema))
     = mset (generate_settings schema)" .
  have each: "\<forall>r \<in> set (run_bf_optimization trial target schema).
      r = run_trial trial target (parameter_set r) \<and> (status r = Ok \<or> status r = Failed)"
  proof
    fix r assume "r \<in> set (run_bf_optimization trial target schema)"
    then have "r \<in> set ?raw" using m by (metis set_mset_mset)
    then obtain ps where "r = run_trial trial target ps" by auto
    then have "r = run_trial trial target (parameter_set r)"
      by (simp add: parameter_set_run_trial)
    moreover have "status r = Ok \<or> status r = Failed" by (cases "status r") simp_all
    ultimately show
      "r = run_trial trial target (parameter_set r) \<and> (status r = Ok \<or> status r = Failed)"
      by simp
  qed
  from len tags each show ?thesis by simp
qed

theorem bf_optimization_results_witness:
  "length (run_bf_optimization example_trial SharpeRatio cta_schema) = 9 \<and>
   \<lparr>parameter_set = [(''atr_length'', 26), (''atr_ma_length'', 20)], target_metric_value = None,
     full_statistics = None, status = Failed\<rparr>
     \<in> set (run_bf_optimization example_trial SharpeRatio cta_schema) \<and>
   run_trial example_trial SharpeRatio [(''atr_length'', 26), (''atr_ma_length'', 20)] =
   \<lparr>parameter_set = [(''atr_length'', 26), (''atr_ma_length'', 20)], target_metric_value = None,
     full_statistics = None, status = Failed\<rparr>"
proof -
  let ?r = "\<lparr>parameter_set = [(''atr_length'', 26), (''atr_ma_length'', 20)],
     target_metric_value = None, full_statistics = None, status = Failed\<rparr>"
  have mem: "?r \<in> set (run_bf_optimization example_trial SharpeRatio cta_schema)"
    by (simp add: run_bf_optimization_def generate_settings_def cta_schema_def cta_grids
       rank_results_def run_trial_def example_trial_def)
  have n: "prod_list (map (\<lambda>p. length (grid_of p)) cta_schema) = 9"
    by (simp add: cta_schema_def cta_grids)
  show ?thesis
    using bf_optimization_results [of example_trial SharpeRatio cta_schema] mem n
    by auto
qed

end
